theory Spec2Isabelle
  imports Main "HOL-Library.Word"
begin

section \<open>Levels\<close>

text \<open>
  \<^verbatim>\<open>type Level uint8\<close> with the seven constants declared by \<^verbatim>\<open>iota\<close>. A level is any
  byte: \<^verbatim>\<open>Level(9)\<close> is a legal value of the type, it only has no name.
\<close>

type_synonym Level = "8 word"

definition TraceLevel :: Level where "TraceLevel = 0"
definition DebugLevel :: Level where "DebugLevel = 1"
definition InfoLevel :: Level where "InfoLevel = 2"
definition WarnLevel :: Level where "WarnLevel = 3"
definition ErrorLevel :: Level where "ErrorLevel = 4"
definition PanicLevel :: Level where "PanicLevel = 5"
definition FatalLevel :: Level where "FatalLevel = 6"

definition LevelMapping :: "Level \<rightharpoonup> string" where
  "LevelMapping = map_of
     [(TraceLevel, ''Trace''), (DebugLevel, ''Debug''), (InfoLevel, ''Info''),
      (WarnLevel, ''Warn''), (ErrorLevel, ''Error''), (PanicLevel, ''Panic''),
      (FatalLevel, ''Fatal'')]"

text \<open>\<^verbatim>\<open>LevelMapping[lvl]\<close>: indexing a Go map at a missing key gives the zero value, the
  empty string.\<close>

definition LevelMapping_at :: "Level \<Rightarrow> string" where
  "LevelMapping_at lvl = (case LevelMapping lvl of Some name \<Rightarrow> name | None \<Rightarrow> [])"

subsection \<open>Decoding\<close>

text \<open>An \<^verbatim>\<open>error\<close> value is given by its message, as \<^verbatim>\<open>errors.New\<close> and
  \<^verbatim>\<open>fmt.Errorf\<close> build it.\<close>

datatype error = errorString string

definition errUnmarshalNilLevel :: error where
  "errUnmarshalNilLevel = errorString ''cannot unmarshal nil *Level''"

text \<open>\<^verbatim>\<open>(l *Level) unmarshalText\<close>: the switch over the fourteen spellings. The result is
  the level stored through the pointer when the method returns true, and \<open>None\<close> when it
  returns false (the target is then left as it was).\<close>

definition unmarshalText :: "string \<Rightarrow> Level option" where
  "unmarshalText text =
     (if text = ''trace'' \<or> text = ''Trace'' then Some TraceLevel
      else if text = ''debug'' \<or> text = ''Debug'' then Some DebugLevel
      else if text = ''info'' \<or> text = ''Info'' then Some InfoLevel
      else if text = ''warn'' \<or> text = ''Warn'' then Some WarnLevel
      else if text = ''error'' \<or> text = ''Error'' then Some ErrorLevel
      else if text = ''panic'' \<or> text = ''Panic'' then Some PanicLevel
      else if text = ''fatal'' \<or> text = ''Fatal'' then Some FatalLevel
      else None)"

text \<open>The fourteen case labels of that switch.\<close>

definition spellings :: "string list" where
  "spellings =
     [''trace'', ''Trace'', ''debug'', ''Debug'', ''info'', ''Info'', ''warn'', ''Warn'',
      ''error'', ''Error'', ''panic'', ''Panic'', ''fatal'', ''Fatal'']"

text \<open>
  \<^verbatim>\<open>bytes.ToLower\<close> of the Go library. On a slice of ASCII bytes it adds \<^verbatim>\<open>'a' - 'A'\<close> to
  every byte between \<^verbatim>\<open>'A'\<close> and \<^verbatim>\<open>'Z'\<close>; a slice with a byte from \<^verbatim>\<open>0x80\<close> on goes
  through the Unicode tables, which are the parameter \<open>uni\<close> here.
\<close>

definition lower_byte :: "char \<Rightarrow> char" where
  "lower_byte c =
     (if (65::nat) \<le> of_char c \<and> of_char c \<le> (90::nat)
      then char_of (of_char c + (32::nat)) else c)"

definition isASCII :: "string \<Rightarrow> bool" where
  "isASCII s = list_all (\<lambda>c. (of_char c :: nat) < 128) s"

definition bytes_ToLower :: "(string \<Rightarrow> string) \<Rightarrow> string \<Rightarrow> string" where
  "bytes_ToLower uni s = (if isASCII s then map lower_byte s else uni s)"

text \<open>
  \<^verbatim>\<open>(l *Level) UnmarshalText\<close>. The receiver is \<open>None\<close> for a nil pointer and \<open>Some v\<close>
  for a pointer to a level holding \<open>v\<close>; the result is the receiver after the call and
  the returned error (\<open>None\<close> for nil). \<open>quote\<close> is the \<^verbatim>\<open>%q\<close> verb of \<^verbatim>\<open>fmt\<close>.
\<close>

definition UnmarshalText ::
  "(string \<Rightarrow> string) \<Rightarrow> (string \<Rightarrow> string) \<Rightarrow> Level option \<Rightarrow> string
     \<Rightarrow> Level option \<times> error option" where
  "UnmarshalText uni quote l text =
     (case l of
        None \<Rightarrow> (None, Some errUnmarshalNilLevel)
      | Some v \<Rightarrow>
          (case unmarshalText text of
             Some v' \<Rightarrow> (Some v', None)
           | None \<Rightarrow>
               (case unmarshalText (bytes_ToLower uni text) of
                  Some v' \<Rightarrow> (Some v', None)
                | None \<Rightarrow> (Some v, Some (errorString (''unexpected level: '' @ quote text))))))"

text \<open>
  What "a casing of a name" means, stated without the arithmetic of \<open>lower_byte\<close>: two
  bytes are the same letter when they are equal or stand at the same place of the two
  ASCII alphabets.
\<close>

definition sameLetter :: "char \<Rightarrow> char \<Rightarrow> bool" where
  "sameLetter c d =
     (c = d
      \<or> (c, d) \<in> set (zip ''ABCDEFGHIJKLMNOPQRSTUVWXYZ'' ''abcdefghijklmnopqrstuvwxyz'')
      \<or> (d, c) \<in> set (zip ''ABCDEFGHIJKLMNOPQRSTUVWXYZ'' ''abcdefghijklmnopqrstuvwxyz''))"

definition casing_of :: "string \<Rightarrow> string \<Rightarrow> bool" where
  "casing_of s name = list_all2 sameLetter s name"

text \<open>A text is recognized when the switch accepts it as it is or lowercased.\<close>

definition recognized :: "(string \<Rightarrow> string) \<Rightarrow> string \<Rightarrow> bool" where
  "recognized uni text = (text \<in> set spellings \<or> bytes_ToLower uni text \<in> set spellings)"

section \<open>Values, the library, and what a call reads from its surroundings\<close>

text \<open>
  An argument of a log call is an \<^verbatim>\<open>interface{}\<close>: a Go string, or any other dynamic
  value (of a type \<open>'a\<close> left open).
\<close>

datatype 'a iface = StringV string | OtherV 'a

text \<open>\<^verbatim>\<open>time.Time\<close>, as the nanoseconds since the zero time, so that \<open>0\<close> is the zero value
  of a fresh record.\<close>

type_synonym Time = int

text \<open>
  The functions of \<^verbatim>\<open>fmt\<close>, \<^verbatim>\<open>time\<close> and \<^verbatim>\<open>jsoniter\<close> the formatters call are not code of this
  repository, so they are parameters of the model:
  \<^item> \<open>Sprint\<close> and \<open>Sprintf\<close> are \<^verbatim>\<open>fmt.Sprint\<close> and \<^verbatim>\<open>fmt.Sprintf\<close>;
  \<^item> \<open>RFC3339\<close> is \<^verbatim>\<open>t.Format(time.RFC3339)\<close>;
  \<^item> \<open>Encode\<close> is \<^verbatim>\<open>jsoniter.NewEncoder(buf).Encode(v)\<close> on one argument and \<open>EncodeMap\<close>
    the same call on the record's mapping: the bytes the call appends to the buffer and
    the error it returns (\<open>None\<close> for nil).
\<close>

record 'a lib =
  Sprint :: "'a iface list \<Rightarrow> string"
  Sprintf :: "string \<Rightarrow> 'a iface list \<Rightarrow> string"
  RFC3339 :: "Time \<Rightarrow> string"
  Encode :: "'a iface \<Rightarrow> string \<times> error option"
  EncodeMap :: "(string \<rightharpoonup> 'a iface) \<Rightarrow> string \<times> error option"

text \<open>\<^verbatim>\<open>strconv.Itoa\<close>, and the \<^verbatim>\<open>%d\<close> verb on an \<^verbatim>\<open>int\<close>: the decimal digits, with a minus
  sign for a negative number.\<close>

function natDigits :: "nat \<Rightarrow> string" where
  "natDigits n =
     (if n < 10 then [char_of (48 + n)] else natDigits (n div 10) @ [char_of (48 + n mod 10)])"
  by pat_completeness auto
termination
  by (relation "measure id") auto

declare natDigits.simps [simp del]

definition Itoa :: "int \<Rightarrow> string" where
  "Itoa i = (if i < 0 then CHR ''-'' # natDigits (nat (- i)) else natDigits (nat i))"

text \<open>\<^verbatim>\<open>const FmtEmptySeparate = ""\<close>, the template of the calls that take none.\<close>

definition FmtEmptySeparate :: string where
  "FmtEmptySeparate = []"

text \<open>The string \<^verbatim>\<open>"\n"\<close>.\<close>

definition newline :: string where
  "newline = [CHR 0x0A]"

text \<open>
  \<^verbatim>\<open>strings.LastIndex(s, "/")\<close>: the index of the last slash, or \<open>-1\<close> when there is none.
\<close>

fun LastIndex_from :: "nat \<Rightarrow> string \<Rightarrow> char \<Rightarrow> int \<Rightarrow> int" where
  "LastIndex_from i [] c found = found"
| "LastIndex_from i (x # xs) c found =
     LastIndex_from (Suc i) xs c (if x = c then int i else found)"

definition strings_LastIndex :: "string \<Rightarrow> char \<Rightarrow> int" where
  "strings_LastIndex s c = LastIndex_from 0 s c (- 1)"

section \<open>Records, options and the logger\<close>

text \<open>
  \<^verbatim>\<open>type Entry struct\<close>. The back-reference \<^verbatim>\<open>logger\<close> is not a field here: the functions
  below take the owning logger as an argument. \<^verbatim>\<open>Buf\<close> is the content of the
  \<^verbatim>\<open>bytes.Buffer\<close>.
\<close>

record 'a Entry =
  Buf :: string
  Map :: "string \<rightharpoonup> 'a iface"
  Level :: Level
  Time :: Time
  File :: string
  Line :: int
  Func :: string
  Format :: string
  Args :: "'a iface list"

text \<open>\<^verbatim>\<open>e.Buf.WriteString(s)\<close>.\<close>

definition WriteString :: "'a Entry \<Rightarrow> string \<Rightarrow> 'a Entry" where
  "WriteString e s = e\<lparr>Buf := Buf e @ s\<rparr>"

text \<open>
  An \<^verbatim>\<open>io.Writer\<close> is modelled by a handle and the byte slices its \<^verbatim>\<open>Write\<close> has
  received, oldest first. The count and error \<^verbatim>\<open>Write\<close> returns are discarded by the
  only caller, so they are not modelled.
\<close>

datatype Writer = Writer (handle: nat) (received: "string list")

definition Writer_Write :: "Writer \<Rightarrow> string \<Rightarrow> Writer" where
  "Writer_Write w p = Writer (handle w) (received w @ [p])"

definition os_Stderr :: Writer where
  "os_Stderr = Writer 2 []"

text \<open>The two implementations of \<^verbatim>\<open>Formatter\<close> in the repository, each with its
  \<^verbatim>\<open>IgnoreBasicFields\<close>.\<close>

datatype Formatter = TextFormatter bool | JSONFormatter bool

text \<open>\<^verbatim>\<open>type options struct\<close>. The two interface fields can be nil (\<open>None\<close>).\<close>

record options =
  position :: "Writer option"
  level :: Level
  stdLevel :: Level
  formatter :: "Formatter option"
  enableCaller :: bool

text \<open>\<^verbatim>\<open>type Option func(*options)\<close> and the five options; \<^verbatim>\<open>initOptions\<close> applies them in
  order to the zero \<^verbatim>\<open>options{}\<close> and then fills in a nil writer and a nil formatter.\<close>

type_synonym Option = "options \<Rightarrow> options"

definition WithPosition :: "Writer option \<Rightarrow> Option" where
  "WithPosition pos = (\<lambda>o'. o'\<lparr>position := pos\<rparr>)"

definition WithLevel :: "Level \<Rightarrow> Option" where
  "WithLevel lvl = (\<lambda>o'. o'\<lparr>level := lvl\<rparr>)"

definition WithStdLevel :: "Level \<Rightarrow> Option" where
  "WithStdLevel lvl = (\<lambda>o'. o'\<lparr>stdLevel := lvl\<rparr>)"

definition WithFormatter :: "Formatter option \<Rightarrow> Option" where
  "WithFormatter fmt = (\<lambda>o'. o'\<lparr>formatter := fmt\<rparr>)"

definition WithEnableCaller :: "bool \<Rightarrow> Option" where
  "WithEnableCaller caller = (\<lambda>o'. o'\<lparr>enableCaller := caller\<rparr>)"

definition initOptions :: "Option list \<Rightarrow> options" where
  "initOptions opts =
     (let o1 = foldl (\<lambda>o' f. f o')
                 \<lparr>position = None, level = 0, stdLevel = 0, formatter = None,
                  enableCaller = False\<rparr> opts;
          o2 = (if position o1 = None then o1\<lparr>position := Some os_Stderr\<rparr> else o1)
      in if formatter o2 = None then o2\<lparr>formatter := Some (TextFormatter False)\<rparr> else o2)"

text \<open>
  \<^verbatim>\<open>type Logger struct\<close>. The calls are modelled one at a time, so the mutex is left out.
  \<^verbatim>\<open>entryPool\<close> holds the records that were put back and not taken out again; \<^verbatim>\<open>Get\<close>
  takes the one put back last, and builds a new record with \<^verbatim>\<open>entry(logger)\<close> when the
  pool is empty. (\<^verbatim>\<open>sync.Pool\<close> promises less: it may hand out any pooled record and may
  drop records. The list is the pool that never drops one.)
\<close>

record 'a Logger =
  opt :: options
  entryPool :: "'a Entry list"

text \<open>\<^verbatim>\<open>func entry(logger *Logger) *Entry\<close>: a new buffer, a new mapping, every other field
  at its zero value. (The logger is only stored as the back-reference.)\<close>

definition entry :: "'a Logger \<Rightarrow> 'a Entry" where
  "entry logger =
     \<lparr>Buf = [], Map = Map.empty, Level = 0, Time = 0, File = [], Line = 0, Func = [],
      Format = [], Args = []\<rparr>"

definition New :: "Option list \<Rightarrow> 'a Logger" where
  "New opts = \<lparr>opt = initOptions opts, entryPool = []\<rparr>"

text \<open>\<^verbatim>\<open>var std = New()\<close>. The package-level functions (\<^verbatim>\<open>Debug\<close>, \<^verbatim>\<open>Infof\<close>, ...) are the
  methods below on this logger.\<close>

definition std :: "'a Logger" where
  "std = New []"

definition Logger_SetOptions :: "'a Logger \<Rightarrow> Option list \<Rightarrow> 'a Logger" where
  "Logger_SetOptions l opts = l\<lparr>opt := foldl (\<lambda>o' f. f o') (opt l) opts\<rparr>"

definition Logger_entry :: "'a Logger \<Rightarrow> 'a Entry \<times> 'a Logger" where
  "Logger_entry l =
     (case entryPool l of
        [] \<Rightarrow> (entry l, l)
      | e # es \<Rightarrow> (e, l\<lparr>entryPool := es\<rparr>))"

section \<open>Formatters\<close>

text \<open>The switch on \<^verbatim>\<open>e.Format\<close> that both formatters write out: \<^verbatim>\<open>fmt.Sprint\<close> of the
  arguments when the template is \<^verbatim>\<open>FmtEmptySeparate\<close>, \<^verbatim>\<open>fmt.Sprintf\<close> otherwise.\<close>

definition message :: "'a lib \<Rightarrow> 'a Entry \<Rightarrow> string" where
  "message lib e =
     (if Format e = FmtEmptySeparate then Sprint lib (Args e)
      else Sprintf lib (Format e) (Args e))"

text \<open>
  The loop of \<^verbatim>\<open>TextFormatter.Format\<close> that shortens the file name:
  \<^verbatim>\<open>for i := len(e.File) - 1; i > 0; i--\<close>, cut after the first slash met. Index \<open>0\<close> is
  never looked at.
\<close>

fun short_from :: "string \<Rightarrow> nat \<Rightarrow> string" where
  "short_from file 0 = file"
| "short_from file (Suc i) =
     (if file ! Suc i = CHR ''/'' then drop (Suc i + 1) file else short_from file i)"

definition TextFormatter_Format ::
  "'a lib \<Rightarrow> bool \<Rightarrow> 'a Entry \<Rightarrow> 'a Entry \<times> error option" where
  "TextFormatter_Format lib IgnoreBasicFields e =
     (let e1 =
        (if \<not> IgnoreBasicFields then
           (let e' = WriteString e (RFC3339 lib (Time e) @ '' '' @ LevelMapping_at (Level e));
                e'' = (if File e \<noteq> [] then
                         WriteString e'
                           ('' '' @ short_from (File e) (length (File e) - 1) @ '':''
                              @ Itoa (Line e))
                       else e')
            in WriteString e'' '' '')
         else e);
          e2 = WriteString e1 (message lib e);
          e3 = WriteString e2 newline
      in (e3, None))"

text \<open>The loop of \<^verbatim>\<open>JSONFormatter.Format\<close> over the arguments: one \<^verbatim>\<open>Encode\<close> each, and
  the first error is returned at once.\<close>

fun encodeArgs :: "'a lib \<Rightarrow> 'a Entry \<Rightarrow> 'a iface list \<Rightarrow> 'a Entry \<times> error option" where
  "encodeArgs lib e [] = (e, None)"
| "encodeArgs lib e (arg # args) =
     (case Encode lib arg of
        (out, Some err) \<Rightarrow> (WriteString e out, Some err)
      | (out, None) \<Rightarrow> encodeArgs lib (WriteString e out) args)"

definition JSONFormatter_Format ::
  "'a lib \<Rightarrow> bool \<Rightarrow> 'a Entry \<Rightarrow> 'a Entry \<times> error option" where
  "JSONFormatter_Format lib IgnoreBasicFields e =
     (if \<not> IgnoreBasicFields then
        (let m1 = (Map e)(''level'' \<mapsto> StringV (LevelMapping_at (Level e)));
             m2 = m1(''time'' \<mapsto> StringV (RFC3339 lib (Time e)));
             m3 = (if File e \<noteq> [] then
                     m2(''file'' \<mapsto> StringV (File e @ '':'' @ Itoa (Line e)),
                        ''func'' \<mapsto> StringV (Func e))
                   else m2);
             m4 = m3(''message'' \<mapsto> StringV (message lib e))
         in (WriteString (e\<lparr>Map := m4\<rparr>) (fst (EncodeMap lib m4)), snd (EncodeMap lib m4)))
      else if Format e = FmtEmptySeparate then encodeArgs lib e (Args e)
      else (WriteString e (Sprintf lib (Format e) (Args e)), None))"

text \<open>The method call \<^verbatim>\<open>formatter.Format(e)\<close> on the interface.\<close>

definition Formatter_Format ::
  "'a lib \<Rightarrow> Formatter \<Rightarrow> 'a Entry \<Rightarrow> 'a Entry \<times> error option" where
  "Formatter_Format lib f e =
     (case f of
        TextFormatter IgnoreBasicFields \<Rightarrow> TextFormatter_Format lib IgnoreBasicFields e
      | JSONFormatter IgnoreBasicFields \<Rightarrow> JSONFormatter_Format lib IgnoreBasicFields e)"

section \<open>The call pipeline\<close>

text \<open>
  What a call reads from its surroundings: \<^verbatim>\<open>time.Now()\<close>, and \<^verbatim>\<open>runtime.Caller(2)\<close>
  with the name \<^verbatim>\<open>runtime.FuncForPC(pc).Name()\<close> (file, line and function name; \<open>None\<close>
  when \<^verbatim>\<open>ok\<close> is false).
\<close>

record env =
  time_Now :: Time
  runtime_Caller :: "(string \<times> int \<times> string) option"

text \<open>
  How a call ends: it returns, it panics with a value, or it ends the process with a
  status. A method called on a nil interface panics with the runtime's error.
\<close>

datatype 'r outcome = Returns 'r | Panics string | Exits int

definition nilDereference :: string where
  "nilDereference = ''runtime error: invalid memory address or nil pointer dereference''"

text \<open>\<^verbatim>\<open>(e *Entry) format\<close>: the formatter's error is dropped. \<open>None\<close> is the panic of
  the call on a nil formatter.\<close>

definition Entry_format :: "'a lib \<Rightarrow> 'a Logger \<Rightarrow> 'a Entry \<Rightarrow> 'a Entry option" where
  "Entry_format lib l e =
     (case formatter (opt l) of
        None \<Rightarrow> None
      | Some f \<Rightarrow> Some (fst (Formatter_Format lib f e)))"

text \<open>\<^verbatim>\<open>(e *Entry) writer\<close>: one \<^verbatim>\<open>Write\<close> of the buffer's bytes. \<open>None\<close> is the panic of
  the call on a nil writer.\<close>

definition Entry_writer :: "'a Logger \<Rightarrow> 'a Entry \<Rightarrow> 'a Logger option" where
  "Entry_writer l e =
     (case position (opt l) of
        None \<Rightarrow> None
      | Some w \<Rightarrow> Some (l\<lparr>opt := (opt l)\<lparr>position := Some (Writer_Write w (Buf e))\<rparr>\<rparr>))"

text \<open>\<^verbatim>\<open>(e *Entry) release\<close>.\<close>

definition Entry_release :: "'a Logger \<Rightarrow> 'a Entry \<Rightarrow> 'a Logger" where
  "Entry_release l e =
     l\<lparr>entryPool :=
         e\<lparr>Args := [], Line := 0, File := [], Format := [], Func := [], Buf := []\<rparr>
           # entryPool l\<rparr>"

text \<open>Lines 230 to 244 of \<^verbatim>\<open>(e *Entry) write\<close>: the record is stamped, and the caller is
  looked up under the test \<^verbatim>\<open>!e.logger.opt.enableCaller\<close>.\<close>

definition Entry_populate ::
  "env \<Rightarrow> 'a Logger \<Rightarrow> 'a Entry \<Rightarrow> Level \<Rightarrow> string \<Rightarrow> 'a iface list \<Rightarrow> 'a Entry" where
  "Entry_populate env l e lvl format args =
     (let e1 = e\<lparr>Time := time_Now env, Level := lvl, Format := format, Args := args\<rparr>
      in if \<not> enableCaller (opt l) then
           (case runtime_Caller env of
              None \<Rightarrow> e1\<lparr>File := ''unknown'', Func := ''unknown''\<rparr>
            | Some (file, line, fn) \<Rightarrow>
                e1\<lparr>File := file, Line := line,
                   Func := drop (nat (strings_LastIndex fn CHR ''/'' + 1)) fn\<rparr>)
         else e1)"

text \<open>\<^verbatim>\<open>(e *Entry) write\<close>. The logger is the one the record was taken from.\<close>

definition Entry_write ::
  "'a lib \<Rightarrow> env \<Rightarrow> 'a Logger \<Rightarrow> 'a Entry \<Rightarrow> Level \<Rightarrow> string \<Rightarrow> 'a iface list
     \<Rightarrow> 'a Logger \<times> unit outcome" where
  "Entry_write lib env l e lvl format args =
     (if level (opt l) > lvl then (l, Returns ())
      else
        (case Entry_format lib l (Entry_populate env l e lvl format args) of
           None \<Rightarrow> (l, Panics nilDereference)
         | Some e' \<Rightarrow>
             (case Entry_writer l e' of
                None \<Rightarrow> (l, Panics nilDereference)
              | Some l' \<Rightarrow> (Entry_release l' e', Returns ()))))"

section \<open>The methods of the logger\<close>

text \<open>\<^verbatim>\<open>l.entry().write(lvl, format, args...)\<close>, the first statement of every leveled
  method.\<close>

definition leveled ::
  "'a lib \<Rightarrow> env \<Rightarrow> 'a Logger \<Rightarrow> Level \<Rightarrow> string \<Rightarrow> 'a iface list
     \<Rightarrow> 'a Logger \<times> unit outcome" where
  "leveled lib env l lvl format args =
     Entry_write lib env (snd (Logger_entry l)) (fst (Logger_entry l)) lvl format args"

definition Logger_Debug where
  "Logger_Debug lib env l args = leveled lib env l DebugLevel FmtEmptySeparate args"

definition Logger_Info where
  "Logger_Info lib env l args = leveled lib env l InfoLevel FmtEmptySeparate args"

definition Logger_Warn where
  "Logger_Warn lib env l args = leveled lib env l WarnLevel FmtEmptySeparate args"

definition Logger_Error where
  "Logger_Error lib env l args = leveled lib env l ErrorLevel FmtEmptySeparate args"

definition Logger_Panic ::
  "'a lib \<Rightarrow> env \<Rightarrow> 'a Logger \<Rightarrow> 'a iface list \<Rightarrow> 'a Logger \<times> unit outcome" where
  "Logger_Panic lib env l args =
     (case leveled lib env l PanicLevel FmtEmptySeparate args of
        (l', Returns u) \<Rightarrow> (l', Panics (Sprint lib args))
      | (l', Panics v) \<Rightarrow> (l', Panics v)
      | (l', Exits c) \<Rightarrow> (l', Exits c))"

definition Logger_Fatal ::
  "'a lib \<Rightarrow> env \<Rightarrow> 'a Logger \<Rightarrow> 'a iface list \<Rightarrow> 'a Logger \<times> unit outcome" where
  "Logger_Fatal lib env l args =
     (case leveled lib env l FatalLevel FmtEmptySeparate args of
        (l', Returns u) \<Rightarrow> (l', Exits 1)
      | (l', Panics v) \<Rightarrow> (l', Panics v)
      | (l', Exits c) \<Rightarrow> (l', Exits c))"

definition Logger_Debugf where
  "Logger_Debugf lib env l format args = leveled lib env l DebugLevel format args"

definition Logger_Infof where
  "Logger_Infof lib env l format args = leveled lib env l InfoLevel format args"

definition Logger_Warnf where
  "Logger_Warnf lib env l format args = leveled lib env l WarnLevel format args"

definition Logger_Errorf where
  "Logger_Errorf lib env l format args = leveled lib env l ErrorLevel format args"

definition Logger_Panicf ::
  "'a lib \<Rightarrow> env \<Rightarrow> 'a Logger \<Rightarrow> string \<Rightarrow> 'a iface list \<Rightarrow> 'a Logger \<times> unit outcome" where
  "Logger_Panicf lib env l format args =
     (case leveled lib env l PanicLevel format args of
        (l', Returns u) \<Rightarrow> (l', Panics (Sprintf lib format args))
      | (l', Panics v) \<Rightarrow> (l', Panics v)
      | (l', Exits c) \<Rightarrow> (l', Exits c))"

definition Logger_Fatalf ::
  "'a lib \<Rightarrow> env \<Rightarrow> 'a Logger \<Rightarrow> string \<Rightarrow> 'a iface list \<Rightarrow> 'a Logger \<times> unit outcome" where
  "Logger_Fatalf lib env l format args =
     (case leveled lib env l FatalLevel format args of
        (l', Returns u) \<Rightarrow> (l', Exits 1)
      | (l', Panics v) \<Rightarrow> (l', Panics v)
      | (l', Exits c) \<Rightarrow> (l', Exits c))"

text \<open>\<^verbatim>\<open>(l *Logger) Write\<close>: the bytes become one string argument, logged at
  \<^verbatim>\<open>stdLevel\<close>; then \<^verbatim>\<open>return 0, nil\<close>.\<close>

definition Logger_Write ::
  "'a lib \<Rightarrow> env \<Rightarrow> 'a Logger \<Rightarrow> string \<Rightarrow> 'a Logger \<times> (int \<times> error option) outcome" where
  "Logger_Write lib env l data =
     (case leveled lib env l (stdLevel (opt l)) FmtEmptySeparate [StringV data] of
        (l', Returns u) \<Rightarrow> (l', Returns (0, None))
      | (l', Panics v) \<Rightarrow> (l', Panics v)
      | (l', Exits c) \<Rightarrow> (l', Exits c))"

section \<open>Notions the properties are stated with\<close>

text \<open>The byte slices the destination has received, oldest first.\<close>

definition sink :: "'a Logger \<Rightarrow> string list" where
  "sink l = (case position (opt l) of None \<Rightarrow> [] | Some w \<Rightarrow> received w)"

text \<open>A logger whose writer and formatter are not nil, as \<open>New\<close> builds it.\<close>

definition ready :: "'a Logger \<Rightarrow> bool" where
  "ready l = (position (opt l) \<noteq> None \<and> formatter (opt l) \<noteq> None)"

text \<open>Every pooled record has an empty buffer.\<close>

definition pool_clean :: "'a Logger \<Rightarrow> bool" where
  "pool_clean l = list_all (\<lambda>e. Buf e = []) (entryPool l)"

text \<open>The bytes the configured formatter leaves in the buffer of the record a leveled call
  acquires and populates: what the call hands to the destination when it gets there.\<close>

definition rendered ::
  "'a lib \<Rightarrow> env \<Rightarrow> 'a Logger \<Rightarrow> Level \<Rightarrow> string \<Rightarrow> 'a iface list \<Rightarrow> string" where
  "rendered lib env l lvl format args =
     (case Entry_format lib (snd (Logger_entry l))
             (Entry_populate env (snd (Logger_entry l)) (fst (Logger_entry l)) lvl format args) of
        None \<Rightarrow> []
      | Some e \<Rightarrow> Buf e)"

definition endsWithNewline :: "string \<Rightarrow> bool" where
  "endsWithNewline s = (case rev s of [] \<Rightarrow> False | c # r \<Rightarrow> c = CHR 0x0A)"

text \<open>The last byte is a newline and the byte before it, if there is one, is not.\<close>

definition endsWithExactlyOneNewline :: "string \<Rightarrow> bool" where
  "endsWithExactlyOneNewline s =
     (case rev s of [] \<Rightarrow> False | c # r \<Rightarrow> c = CHR 0x0A \<and> \<not> endsWithNewline (rev r))"

section \<open>An instance of the library for the examples\<close>

text \<open>
  The examples below need the library's functions at concrete arguments. This instance
  follows the documentation of the Go packages on the values the examples use, and is
  not meant to go further:
  \<^item> a value that is not a string is an \<^verbatim>\<open>int\<close> or a channel;
  \<^item> \<open>exSprint\<close> is \<^verbatim>\<open>fmt.Sprint\<close>: the operands in their default format, with a space
    between two operands when neither is a string;
  \<^item> \<open>exSprintf\<close> is \<^verbatim>\<open>fmt.Sprintf\<close> on templates whose only verb is \<^verbatim>\<open>%v\<close>, one per
    argument;
  \<^item> \<open>exRFC3339\<close> does no calendar arithmetic: it is the rendering, in UTC, of the one
    clock reading the examples use (\<open>exNow\<close>);
  \<^item> \<open>exEncode\<close> writes a string without characters to escape between quotes, an
    \<^verbatim>\<open>int\<close> in decimal, each followed by a newline, and fails on a channel without
    writing; \<open>exEncodeMap\<close> writes the keys the formatter sets, in alphabetical order.
\<close>

datatype goval = IntV int | ChanV

definition exValue :: "goval iface \<Rightarrow> string" where
  "exValue v =
     (case v of
        StringV s \<Rightarrow> s
      | OtherV (IntV i) \<Rightarrow> Itoa i
      | OtherV ChanV \<Rightarrow> ''0xc000010000'')"

definition isString :: "'a iface \<Rightarrow> bool" where
  "isString v = (case v of StringV s \<Rightarrow> True | OtherV x \<Rightarrow> False)"

fun doPrint :: "bool \<Rightarrow> bool \<Rightarrow> goval iface list \<Rightarrow> string" where
  "doPrint first prevString [] = []"
| "doPrint first prevString (arg # args) =
     (if \<not> first \<and> \<not> isString arg \<and> \<not> prevString then '' '' else [])
       @ exValue arg @ doPrint False (isString arg) args"

definition exSprint :: "goval iface list \<Rightarrow> string" where
  "exSprint args = doPrint True False args"

fun exSprintf :: "string \<Rightarrow> goval iface list \<Rightarrow> string" where
  "exSprintf [] args = []"
| "exSprintf [c] args = [c]"
| "exSprintf (c # v # rest) args =
     (if c = CHR ''%'' \<and> v = CHR ''v'' then
        (case args of
           [] \<Rightarrow> ''%!v(MISSING)'' @ exSprintf rest []
         | arg # args' \<Rightarrow> exValue arg @ exSprintf rest args')
      else c # exSprintf (v # rest) args)"

definition exNow :: Time where
  "exNow = 63902919845000000000"

definition exRFC3339 :: "Time \<Rightarrow> string" where
  "exRFC3339 t = ''2026-01-02T03:04:05Z''"

definition exJSON :: "goval iface \<Rightarrow> string option" where
  "exJSON v =
     (case v of
        StringV s \<Rightarrow> Some (CHR 0x22 # s @ [CHR 0x22])
      | OtherV (IntV i) \<Rightarrow> Some (Itoa i)
      | OtherV ChanV \<Rightarrow> None)"

definition exEncode :: "goval iface \<Rightarrow> string \<times> error option" where
  "exEncode v =
     (case exJSON v of
        Some t \<Rightarrow> (t @ newline, None)
      | None \<Rightarrow> ([], Some (errorString ''unsupported type: chan int'')))"

fun exMembers :: "(string \<rightharpoonup> goval iface) \<Rightarrow> string list \<Rightarrow> string list" where
  "exMembers m [] = []"
| "exMembers m (k # ks) =
     (case m k of
        None \<Rightarrow> exMembers m ks
      | Some v \<Rightarrow>
          ((CHR 0x22 # k @ [CHR 0x22]) @ '':''
             @ (case exJSON v of Some t \<Rightarrow> t | None \<Rightarrow> ''null''))
            # exMembers m ks)"

fun commas :: "string list \<Rightarrow> string" where
  "commas [] = []"
| "commas [x] = x"
| "commas (x # y # ys) = x @ '','' @ commas (y # ys)"

definition exEncodeMap :: "(string \<rightharpoonup> goval iface) \<Rightarrow> string \<times> error option" where
  "exEncodeMap m =
     (''{'' @ commas (exMembers m [''file'', ''func'', ''level'', ''message'', ''time''])
        @ ''}'' @ newline, None)"

definition exLib :: "goval lib" where
  "exLib = \<lparr>Sprint = exSprint, Sprintf = exSprintf, RFC3339 = exRFC3339, Encode = exEncode,
            EncodeMap = exEncodeMap\<rparr>"

text \<open>The surroundings of the example calls: the clock reads \<open>exNow\<close>, and the caller two
  frames up is line 42 of \<^verbatim>\<open>run.go\<close>, in the function \<^verbatim>\<open>Run\<close> of a package \<^verbatim>\<open>sub\<close>.\<close>

definition exEnv :: env where
  "exEnv = \<lparr>time_Now = exNow,
            runtime_Caller = Some (''/home/user/app/sub/run.go'', 42, ''example.com/app/sub.Run'')\<rparr>"

text \<open>The record an example call \<^verbatim>\<open>Info(args...)\<close> on a logger with default options
  populates, before it is formatted.\<close>

definition exRecord :: "goval iface list \<Rightarrow> goval Entry" where
  "exRecord args = Entry_populate exEnv (New []) (entry (New [])) InfoLevel FmtEmptySeparate args"

text \<open>Two loggers after one accepted call each: one with minimum level \<open>InfoLevel\<close>, one
  with the JSON formatter.\<close>

definition exInfoLogger :: "goval Logger" where
  "exInfoLogger = fst (Logger_Info exLib exEnv (New [WithLevel InfoLevel]) [StringV ''y''])"

definition exJSONLogger :: "goval Logger" where
  "exJSONLogger =
     fst (Logger_Info exLib exEnv (New [WithFormatter (Some (JSONFormatter False))])
            [StringV ''first''])"

section \<open>Decoding levels\<close>

lemmas Level_defs =
  TraceLevel_def DebugLevel_def InfoLevel_def WarnLevel_def ErrorLevel_def PanicLevel_def
  FatalLevel_def

lemma LevelMapping_cases:
  "LevelMapping L = Some name \<Longrightarrow>
     (L = TraceLevel \<and> name = ''Trace'') \<or> (L = DebugLevel \<and> name = ''Debug'') \<or>
     (L = InfoLevel \<and> name = ''Info'') \<or> (L = WarnLevel \<and> name = ''Warn'') \<or>
     (L = ErrorLevel \<and> name = ''Error'') \<or> (L = PanicLevel \<and> name = ''Panic'') \<or>
     (L = FatalLevel \<and> name = ''Fatal'')"
  by (auto simp: LevelMapping_def split: if_splits)

lemma char_eq_char_of: "(c = char_of (n::nat)) = (take_bit 8 n = of_char c)"
  using char_of_eq_iff [of n c] by auto

lemma unmarshalText_None: "t \<notin> set spellings \<Longrightarrow> unmarshalText t = None"
  by (simp add: unmarshalText_def spellings_def)

lemma unmarshalText_spelling: "t \<in> set spellings \<Longrightarrow> unmarshalText t \<noteq> None"
  unfolding spellings_def set_simps insert_iff empty_iff
  by (elim disjE FalseE; simp add: unmarshalText_def)

lemma unmarshalText_Some_iff: "unmarshalText t \<noteq> None \<longleftrightarrow> t \<in> set spellings"
  using unmarshalText_None [of t] unmarshalText_spelling [of t]
  by (cases "t \<in> set spellings") simp_all

lemma unmarshalText_lower_in:
  "t \<in> set spellings \<Longrightarrow> unmarshalText (map lower_byte t) = unmarshalText t"
  unfolding spellings_def set_simps insert_iff empty_iff
  by (elim disjE FalseE; simp add: unmarshalText_def lower_byte_def char_of_eq_iff)

lemma unmarshalText_lower:
  "unmarshalText t = Some v \<Longrightarrow> unmarshalText (map lower_byte t) = Some v"
  using unmarshalText_None [of t] unmarshalText_lower_in [of t]
  by (cases "t \<in> set spellings") simp_all

lemma casing_lower_aux:
  "casing_of s name \<Longrightarrow>
   name \<in> set [''Trace'', ''Debug'', ''Info'', ''Warn'', ''Error'', ''Panic'', ''Fatal''] \<Longrightarrow>
   isASCII s \<and> map lower_byte s = map lower_byte name"
  unfolding set_simps insert_iff empty_iff
  apply (elim disjE FalseE)
  apply (clarsimp simp: casing_of_def list_all2_Cons2 sameLetter_def isASCII_def,
         (elim disjE; simp add: lower_byte_def char_of_eq_iff char_eq_char_of))+
  done

lemma casing_lower:
  "casing_of s name \<Longrightarrow> LevelMapping L = Some name \<Longrightarrow>
     isASCII s \<and> map lower_byte s = map lower_byte name"
  by (drule LevelMapping_cases, rule casing_lower_aux) auto

lemma unmarshalText_name:
  "LevelMapping L = Some name \<Longrightarrow>
     unmarshalText name = Some L \<and> unmarshalText (map lower_byte name) = Some L"
  by (drule LevelMapping_cases, elim disjE conjE;
      simp add: unmarshalText_def lower_byte_def char_of_eq_iff Level_defs)

lemma casing_of_refl: "casing_of name name"
  by (simp add: casing_of_def list_all2_same sameLetter_def)

text \<open>
  C5. For each of the seven levels \<open>L\<close>, with \<open>name\<close> its entry in \<open>LevelMapping\<close>:
  decoding \<open>name\<close> gives \<open>L\<close> with no error, and so does decoding any text \<open>s\<close> that
  differs from \<open>name\<close> only in the case of its letters (\<open>name\<close> itself is one). The
  decoder gets there by trying the text as it is and then lowercased: its result is that
  of the first of the two tries that the switch accepts.
\<close>

theorem level_decode_roundtrip_any_casing:
  assumes "LevelMapping L = Some name" and "casing_of s name"
  shows "UnmarshalText uni quote (Some l0) name = (Some L, None)
       \<and> UnmarshalText uni quote (Some l0) s = (Some L, None)
       \<and> casing_of name name
       \<and> UnmarshalText uni quote (Some l0) s =
           (case unmarshalText s of
              Some v \<Rightarrow> (Some v, None)
            | None \<Rightarrow> (unmarshalText (bytes_ToLower uni s), None))"
proof -
  have n: "unmarshalText name = Some L" "unmarshalText (map lower_byte name) = Some L"
    using unmarshalText_name [OF assms(1)] by simp_all
  have low: "bytes_ToLower uni s = map lower_byte name"
    using casing_lower [OF assms(2,1)] by (simp add: bytes_ToLower_def)
  have verbatim: "unmarshalText s = None \<or> unmarshalText s = Some L"
  proof (cases "unmarshalText s")
    case (Some v)
    from unmarshalText_lower [OF Some] casing_lower [OF assms(2,1)] n(2)
    show ?thesis using Some by simp
  qed simp
  then have s: "UnmarshalText uni quote (Some l0) s = (Some L, None)"
    by (auto simp: UnmarshalText_def low n(2))
  from verbatim have "(case unmarshalText s of
              Some v \<Rightarrow> (Some v, None)
            | None \<Rightarrow> (unmarshalText (bytes_ToLower uni s), None)) = (Some L, None :: error option)"
    by (auto simp: low n(2))
  with s show ?thesis
    by (simp add: UnmarshalText_def n(1) casing_of_refl)
qed

theorem level_decode_roundtrip_any_casing_witness:
  "LevelMapping DebugLevel = Some ''Debug'' \<and> casing_of ''DEBUG'' ''Debug''
   \<and> UnmarshalText (\<lambda>s. s) (\<lambda>s. s) (Some TraceLevel) ''Debug'' = (Some DebugLevel, None)
   \<and> UnmarshalText (\<lambda>s. s) (\<lambda>s. s) (Some TraceLevel) ''DEBUG'' = (Some DebugLevel, None)"
proof -
  have a: "LevelMapping DebugLevel = Some ''Debug''"
    by (simp add: LevelMapping_def Level_defs)
  have b: "casing_of ''DEBUG'' ''Debug''"
    by (simp add: casing_of_def sameLetter_def)
  from level_decode_roundtrip_any_casing [OF a b, of "\<lambda>s. s" "\<lambda>s. s" TraceLevel] a b
  show ?thesis by simp
qed

text \<open>
  C6. Decoding through a nil pointer returns \<open>errUnmarshalNilLevel\<close>, whatever the text.
  Decoding a text that is not recognized leaves the target as it was and returns an
  error whose message is \<^verbatim>\<open>unexpected level: \<close> followed by the text as \<^verbatim>\<open>%q\<close> prints it;
  that error is never \<open>errUnmarshalNilLevel\<close>. Decoding a recognized text returns no
  error.
\<close>

theorem level_decode_errors:
  "UnmarshalText uni quote None text = (None, Some errUnmarshalNilLevel)
   \<and> (\<not> recognized uni text \<longrightarrow>
        UnmarshalText uni quote (Some v) text
          = (Some v, Some (errorString (''unexpected level: '' @ quote text))))
   \<and> errorString (''unexpected level: '' @ quote text) \<noteq> errUnmarshalNilLevel
   \<and> (recognized uni text \<longrightarrow>
        snd (UnmarshalText uni quote (Some v) text) = None
        \<and> fst (UnmarshalText uni quote (Some v) text) \<noteq> None)"
proof -
  have nil: "UnmarshalText uni quote None text = (None, Some errUnmarshalNilLevel)"
    by (simp add: UnmarshalText_def)
  have bad: "UnmarshalText uni quote (Some v) text
          = (Some v, Some (errorString (''unexpected level: '' @ quote text)))"
    if "\<not> recognized uni text"
  proof -
    from that have "unmarshalText text = None" "unmarshalText (bytes_ToLower uni text) = None"
      by (simp_all add: recognized_def unmarshalText_None)
    then show ?thesis by (simp add: UnmarshalText_def)
  qed
  have distinct: "errorString (''unexpected level: '' @ quote text) \<noteq> errUnmarshalNilLevel"
    by (simp add: errUnmarshalNilLevel_def)
  have good: "snd (UnmarshalText uni quote (Some v) text) = None
        \<and> fst (UnmarshalText uni quote (Some v) text) \<noteq> None"
    if "recognized uni text"
  proof -
    from that have "unmarshalText text \<noteq> None \<or> unmarshalText (bytes_ToLower uni text) \<noteq> None"
      unfolding recognized_def unmarshalText_Some_iff .
    then show ?thesis by (auto simp: UnmarshalText_def split: option.splits)
  qed
  from nil bad distinct good show ?thesis by blast
qed

theorem level_decode_errors_witness:
  "\<not> recognized (\<lambda>s. s) ''verbose''
   \<and> UnmarshalText (\<lambda>s. s) (\<lambda>s. CHR 0x22 # s @ [CHR 0x22]) (Some InfoLevel) ''verbose''
       = (Some InfoLevel,
          Some (errorString (''unexpected level: '' @ CHR 0x22 # ''verbose'' @ [CHR 0x22])))
   \<and> recognized (\<lambda>s. s) ''WARN''
   \<and> UnmarshalText (\<lambda>s. s) (\<lambda>s. CHR 0x22 # s @ [CHR 0x22]) (Some InfoLevel) ''WARN''
       = (Some WarnLevel, None)
   \<and> UnmarshalText (\<lambda>s. s) (\<lambda>s. CHR 0x22 # s @ [CHR 0x22]) None ''WARN''
       = (None, Some errUnmarshalNilLevel)"
proof -
  have a: "\<not> recognized (\<lambda>s. s) ''verbose''"
    by (simp add: recognized_def spellings_def bytes_ToLower_def isASCII_def lower_byte_def)
  have b: "recognized (\<lambda>s. s) ''WARN''"
    by (simp add: recognized_def spellings_def bytes_ToLower_def isASCII_def lower_byte_def
        char_of_eq_iff)
  have c: "UnmarshalText (\<lambda>s. s) (\<lambda>s. CHR 0x22 # s @ [CHR 0x22]) (Some InfoLevel) ''WARN''
       = (Some WarnLevel, None)"
    by (simp add: UnmarshalText_def unmarshalText_def bytes_ToLower_def isASCII_def
        lower_byte_def char_of_eq_iff)
  from level_decode_errors [of "\<lambda>s. s" "\<lambda>s. CHR 0x22 # s @ [CHR 0x22]" "''verbose''" InfoLevel]
    level_decode_errors [of "\<lambda>s. s" "\<lambda>s. CHR 0x22 # s @ [CHR 0x22]" "''WARN''" InfoLevel]
    a b c
  show ?thesis by simp
qed


section \<open>The JSON formatter without basic fields\<close>



text \<open>When an argument cannot be encoded the loop stops there: the buffer holds what the
  calls made so far have written.\<close>

lemma encodeArgs_Buf_prefix:
  "\<exists>n. Buf (fst (encodeArgs lib e args))
          = Buf e @ concat (map (\<lambda>a. fst (Encode lib a)) (take n args))"
proof (induction args arbitrary: e)
  case Nil
  show ?case by simp
next
  case (Cons a args)
  obtain out err where a: "Encode lib a = (out, err)" by (cases "Encode lib a")
  show ?case
  proof (cases err)
    case None
    from Cons.IH [of "WriteString e out"] obtain n where
      "Buf (fst (encodeArgs lib (WriteString e out) args))
         = Buf (WriteString e out) @ concat (map (\<lambda>a. fst (Encode lib a)) (take n args))" by blast
    with a None have "Buf (fst (encodeArgs lib e (a # args)))
         = Buf e @ concat (map (\<lambda>a. fst (Encode lib a)) (take (Suc n) (a # args)))"
      by (simp add: WriteString_def)
    then show ?thesis by blast
  next
    case (Some x)
    with a have "Buf (fst (encodeArgs lib e (a # args)))
         = Buf e @ concat (map (\<lambda>a. fst (Encode lib a)) (take (Suc 0) (a # args)))"
      by (simp add: WriteString_def)
    then show ?thesis by blast
  qed
qed



lemma Itoa_42: "Itoa 42 = ''42''"
  by (simp add: Itoa_def natDigits.simps[of 42] natDigits.simps[of 4] char_of_eq_iff)



section \<open>The text formatter\<close>

lemma TextFormatter_Format_Buf:
  "\<exists>pre. Buf (fst (TextFormatter_Format lib ig e)) = Buf e @ pre @ message lib e @ newline
         \<and> (pre = [] \<or> last pre = CHR '' '') \<and> (if ig then pre = [] else pre \<noteq> [])"
proof (cases ig)
  case True
  then have "Buf (fst (TextFormatter_Format lib ig e)) = Buf e @ [] @ message lib e @ newline"
    by (simp add: TextFormatter_Format_def WriteString_def Let_def)
  with True show ?thesis by auto
next
  case False
  let ?pre = "RFC3339 lib (Time e) @ '' '' @ LevelMapping_at (Level e)
      @ (if File e \<noteq> [] then '' '' @ short_from (File e) (length (File e) - 1) @ '':''
              @ Itoa (Line e) else []) @ '' ''"
  from False have "Buf (fst (TextFormatter_Format lib ig e)) = Buf e @ ?pre @ message lib e @ newline"
    by (simp add: TextFormatter_Format_def WriteString_def Let_def)
  moreover have "last ?pre = CHR '' ''" "?pre \<noteq> []" by simp_all
  ultimately show ?thesis using False by metis
qed

lemma endsWithNewline_append:
  "endsWithNewline (xs @ ys) = (if ys = [] then endsWithNewline xs else endsWithNewline ys)"
  by (cases ys rule: rev_cases) (simp_all add: endsWithNewline_def)

lemma endsWithNewline_last:
  "endsWithNewline s = (s \<noteq> [] \<and> last s = CHR 0x0A)"
  by (cases s rule: rev_cases) (simp_all add: endsWithNewline_def)

lemma endsWithExactlyOneNewline_snoc:
  "endsWithExactlyOneNewline (s @ newline) = (\<not> endsWithNewline s)"
  by (simp add: endsWithExactlyOneNewline_def newline_def)

text \<open>
  C7, as amended. For a record whose buffer is empty, as the pool hands it out: the text
  formatter's output is some prefix (the basic fields, when they are not ignored), then
  the message, then one newline, where the message is \<^verbatim>\<open>fmt.Sprint\<close> of the arguments for
  the empty template and \<^verbatim>\<open>fmt.Sprintf\<close> of template and arguments otherwise. So the
  output ends with a newline and holds the message; and it ends with exactly one newline
  if and only if the message does not itself end with a newline. The formatter returns
  no error.
\<close>

theorem text_format_output:
  assumes "Buf e = []"
  shows "(\<exists>pre. Buf (fst (TextFormatter_Format lib ig e))
              = pre @ (if Format e = FmtEmptySeparate then Sprint lib (Args e)
                       else Sprintf lib (Format e) (Args e)) @ newline)
       \<and> endsWithNewline (Buf (fst (TextFormatter_Format lib ig e)))
       \<and> endsWithExactlyOneNewline (Buf (fst (TextFormatter_Format lib ig e)))
           = (\<not> endsWithNewline (if Format e = FmtEmptySeparate then Sprint lib (Args e)
                                   else Sprintf lib (Format e) (Args e)))
       \<and> snd (TextFormatter_Format lib ig e) = None"
proof -
  let ?out = "Buf (fst (TextFormatter_Format lib ig e))"
  have m: "(if Format e = FmtEmptySeparate then Sprint lib (Args e)
            else Sprintf lib (Format e) (Args e)) = message lib e"
    by (simp add: message_def)
  from TextFormatter_Format_Buf [of lib ig e] assms obtain pre where
    out: "?out = pre @ message lib e @ newline" and pre: "pre = [] \<or> last pre = CHR '' ''"
    by auto
  from pre have np: "\<not> endsWithNewline pre"
    by (auto simp: endsWithNewline_last)
  have "?out = (pre @ message lib e) @ newline" using out by simp
  then have "endsWithExactlyOneNewline ?out = (\<not> endsWithNewline (pre @ message lib e))"
    by (simp only: endsWithExactlyOneNewline_snoc)
  also have "\<dots> = (\<not> endsWithNewline (message lib e))"
  proof (cases "message lib e = []")
    case True
    with np show ?thesis by (simp add: endsWithNewline_def)
  next
    case False
    then show ?thesis by (simp add: endsWithNewline_append)
  qed
  finally have one: "endsWithExactlyOneNewline ?out = (\<not> endsWithNewline (message lib e))" .
  have nl: "endsWithNewline ?out"
    unfolding out by (simp add: endsWithNewline_last newline_def)
  have "snd (TextFormatter_Format lib ig e) = None"
    by (simp add: TextFormatter_Format_def Let_def)
  with out one nl show ?thesis unfolding m by blast
qed

text \<open>The example record, field by field.\<close>

lemma exRecord_eval:
  "exRecord args =
     \<lparr>Buf = [], Map = Map.empty, Level = InfoLevel, Time = exNow,
      File = ''/home/user/app/sub/run.go'', Line = 42, Func = ''sub.Run'',
      Format = [], Args = args\<rparr>"
  by (simp add: exRecord_def Entry_populate_def exEnv_def New_def initOptions_def entry_def
      FmtEmptySeparate_def strings_LastIndex_def)

text \<open>
  C7 as stated fails: the formatter appends its newline to whatever the message is. A
  record populated by \<^verbatim>\<open>Info("disk full\n")\<close> is rendered with two newlines at the end.
\<close>

theorem text_format_two_newlines:
  "Buf (fst (TextFormatter_Format exLib False (exRecord [StringV ''disk full\<newline>''])))
     = ''2026-01-02T03:04:05Z Info run.go:42 disk full\<newline>\<newline>''
   \<and> \<not> endsWithExactlyOneNewline
        (Buf (fst (TextFormatter_Format exLib False (exRecord [StringV ''disk full\<newline>'']))))"
  by code_simp

theorem text_format_output_witness:
  "Buf (exRecord [StringV ''y'']) = []
   \<and> Buf (fst (TextFormatter_Format exLib False (exRecord [StringV ''y''])))
       = ''2026-01-02T03:04:05Z Info run.go:42 y\<newline>''
   \<and> endsWithExactlyOneNewline
        (Buf (fst (TextFormatter_Format exLib False (exRecord [StringV ''y'']))))"
proof -
  have b: "Buf (exRecord [StringV ''y'']) = []" by (simp add: exRecord_eval)
  have m: "\<not> endsWithNewline
            (if Format (exRecord [StringV ''y'']) = FmtEmptySeparate
             then Sprint exLib (Args (exRecord [StringV ''y'']))
             else Sprintf exLib (Format (exRecord [StringV ''y''])) (Args (exRecord [StringV ''y''])))"
    by code_simp
  have out: "Buf (fst (TextFormatter_Format exLib False (exRecord [StringV ''y''])))
       = ''2026-01-02T03:04:05Z Info run.go:42 y\<newline>''"
    by code_simp
  from text_format_output [OF b, of exLib False] m b out show ?thesis by simp
qed


section \<open>The call pipeline\<close>

lemma ready_New: "ready (New opts)"
  by (simp add: ready_def New_def initOptions_def Let_def)

lemma pool_clean_New: "pool_clean (New opts)"
  by (simp add: pool_clean_def New_def)

lemma opt_Logger_entry: "opt (snd (Logger_entry l)) = opt l"
  by (simp add: Logger_entry_def split: list.splits)

lemma Buf_Logger_entry: "pool_clean l \<Longrightarrow> Buf (fst (Logger_entry l)) = []"
  by (cases "entryPool l") (simp_all add: Logger_entry_def pool_clean_def entry_def)

lemma entryPool_Logger_entry: "entryPool (snd (Logger_entry l)) = tl (entryPool l)"
  by (simp add: Logger_entry_def split: list.splits)

text \<open>A call below the minimum level returns at the gate: the logger is left as
  \<^verbatim>\<open>l.entry()\<close> left it, with the acquired record out of the pool.\<close>

lemma leveled_below:
  "lvl < level (opt l) \<Longrightarrow>
     leveled lib env l lvl format args = (snd (Logger_entry l), Returns ())"
  by (simp add: leveled_def Entry_write_def opt_Logger_entry)

text \<open>A call at or above the minimum level, on a logger with a writer and a formatter:
  one \<^verbatim>\<open>Write\<close> of the rendered buffer, then the record goes back to the pool.\<close>

lemma leveled_pass:
  assumes "ready l" and "level (opt l) \<le> lvl"
  shows "\<exists>w f e'. position (opt l) = Some w \<and> formatter (opt l) = Some f
           \<and> e' = fst (Formatter_Format lib f
                     (Entry_populate env (snd (Logger_entry l)) (fst (Logger_entry l)) lvl format args))
           \<and> rendered lib env l lvl format args = Buf e'
           \<and> leveled lib env l lvl format args =
               (Entry_release
                  ((snd (Logger_entry l))
                     \<lparr>opt := (opt l)\<lparr>position := Some (Writer_Write w (Buf e'))\<rparr>\<rparr>) e',
                Returns ())"
proof -
  from assms(1) obtain w f where w: "position (opt l) = Some w" and f: "formatter (opt l) = Some f"
    by (auto simp: ready_def)
  from assms(2) have g: "\<not> lvl < level (opt l)" by simp
  show ?thesis
    using w f g
    by (simp add: leveled_def Entry_write_def Entry_format_def Entry_writer_def rendered_def
        opt_Logger_entry)
qed

lemma sink_leveled_below:
  "lvl < level (opt l) \<Longrightarrow> sink (fst (leveled lib env l lvl format args)) = sink l"
  by (simp add: leveled_below sink_def opt_Logger_entry)

lemma sink_leveled_pass:
  assumes "ready l" and "level (opt l) \<le> lvl"
  shows "sink (fst (leveled lib env l lvl format args))
           = sink l @ [rendered lib env l lvl format args]"
proof -
  from leveled_pass [OF assms, of lib env format args] obtain w f e' where
    "position (opt l) = Some w"
    "rendered lib env l lvl format args = Buf e'"
    "leveled lib env l lvl format args =
               (Entry_release
                  ((snd (Logger_entry l))
                     \<lparr>opt := (opt l)\<lparr>position := Some (Writer_Write w (Buf e'))\<rparr>\<rparr>) e',
                Returns ())"
    by blast
  then show ?thesis
    by (simp add: sink_def Entry_release_def Writer_Write_def)
qed

lemma snd_leveled:
  "ready l \<Longrightarrow> snd (leveled lib env l lvl format args) = Returns ()"
proof (cases "lvl < level (opt l)")
  case True
  then show ?thesis by (simp add: leveled_below)
next
  case False
  then have g: "level (opt l) \<le> lvl" by simp
  assume r: "ready l"
  from leveled_pass [OF r g, of lib env format args] show ?thesis by auto
qed

lemma ready_leveled: "ready l \<Longrightarrow> ready (fst (leveled lib env l lvl format args))"
proof (cases "lvl < level (opt l)")
  case True
  assume "ready l"
  with True show ?thesis by (simp add: leveled_below ready_def opt_Logger_entry)
next
  case False
  then have g: "level (opt l) \<le> lvl" by simp
  assume r: "ready l"
  from leveled_pass [OF r g, of lib env format args] r show ?thesis
    by (auto simp: ready_def Entry_release_def)
qed

lemma pool_clean_leveled:
  assumes "pool_clean l"
  shows "pool_clean (fst (leveled lib env l lvl format args))"
proof -
  have tl: "list_all (\<lambda>e. Buf e = []) (tl (entryPool l))"
    using assms by (cases "entryPool l") (simp_all add: pool_clean_def)
  show ?thesis
    using tl
    by (auto simp: leveled_def Entry_write_def Entry_writer_def Entry_release_def pool_clean_def
        entryPool_Logger_entry split: option.splits)
qed

text \<open>
  C4. Take a logger with a writer and a formatter, whose pooled records have empty
  buffers (\<open>New\<close> builds such a logger and every leveled call keeps it so). A leveled
  call at a level below the configured minimum leaves the destination as it was: no
  byte is written. A call at a level at or above the minimum makes the destination
  receive exactly one more slice, the rendered record; and the buffer it was rendered
  in was empty when the record was acquired. In both cases the call returns.
\<close>

theorem gate_decides_the_write:
  assumes "ready l" and "pool_clean l"
  shows "(lvl < level (opt l) \<longrightarrow> sink (fst (leveled lib env l lvl format args)) = sink l)
       \<and> (level (opt l) \<le> lvl \<longrightarrow>
            sink (fst (leveled lib env l lvl format args))
              = sink l @ [rendered lib env l lvl format args])
       \<and> Buf (fst (Logger_entry l)) = []
       \<and> snd (leveled lib env l lvl format args) = Returns ()"
  using assms
  by (simp add: sink_leveled_below sink_leveled_pass Buf_Logger_entry snd_leveled)

theorem gate_decides_the_write_witness:
  "ready (New [WithLevel InfoLevel] :: goval Logger)
   \<and> pool_clean (New [WithLevel InfoLevel] :: goval Logger)
   \<and> DebugLevel < level (opt (New [WithLevel InfoLevel] :: goval Logger))
   \<and> sink (fst (leveled exLib exEnv (New [WithLevel InfoLevel]) DebugLevel FmtEmptySeparate
                  [StringV ''x''])) = []
   \<and> level (opt (New [WithLevel InfoLevel] :: goval Logger)) \<le> InfoLevel
   \<and> sink (fst (leveled exLib exEnv (New [WithLevel InfoLevel]) InfoLevel FmtEmptySeparate
                  [StringV ''y'']))
       = [''2026-01-02T03:04:05Z Info run.go:42 y\<newline>'']"
proof -
  let ?L = "New [WithLevel InfoLevel] :: goval Logger"
  have lv: "level (opt ?L) = InfoLevel"
    by (simp add: New_def initOptions_def WithLevel_def)
  have below: "DebugLevel < level (opt ?L)" and above: "level (opt ?L) \<le> InfoLevel"
    unfolding lv by (simp_all add: Level_defs)
  have s0: "sink ?L = []" by code_simp
  have r: "rendered exLib exEnv ?L InfoLevel FmtEmptySeparate [StringV ''y'']
             = ''2026-01-02T03:04:05Z Info run.go:42 y\<newline>''"
    by code_simp
  from gate_decides_the_write [OF ready_New pool_clean_New, where opts1 = "[WithLevel InfoLevel]"
         and lvl = DebugLevel and lib = exLib and env = exEnv and format = FmtEmptySeparate
         and args = "[StringV ''x'']"]
       gate_decides_the_write [OF ready_New pool_clean_New, where opts1 = "[WithLevel InfoLevel]"
         and lvl = InfoLevel and lib = exLib and env = exEnv and format = FmtEmptySeparate
         and args = "[StringV ''y'']"]
       below above s0 r ready_New [where opts = "[WithLevel InfoLevel]" and 'a = goval]
       pool_clean_New [where opts = "[WithLevel InfoLevel]" and 'a = goval]
  show ?thesis by simp
qed

section \<open>Panic calls\<close>

lemma leveled_Returns:
  "ready l \<Longrightarrow>
     leveled lib env l lvl format args = (fst (leveled lib env l lvl format args), Returns ())"
  using snd_leveled [of l lib env lvl format args]
  by (cases "leveled lib env l lvl format args") simp

lemma sink_leveled:
  "ready l \<Longrightarrow>
     sink (fst (leveled lib env l lvl format args))
       = (if level (opt l) \<le> lvl then sink l @ [rendered lib env l lvl format args]
          else sink l)"
  by (simp add: sink_leveled_pass sink_leveled_below)

text \<open>
  C9, as amended. On a logger with a writer and a formatter, \<^verbatim>\<open>Panic\<close> ends in a panic
  whose value is \<^verbatim>\<open>fmt.Sprint\<close> of the arguments and \<^verbatim>\<open>Panicf\<close> in one whose value is
  \<^verbatim>\<open>fmt.Sprintf\<close> of template and arguments: the call neither returns nor ends the
  process. Before that, the rendered line has been written to the destination if the
  configured minimum level is at most \<open>PanicLevel\<close>; if it is higher, nothing has been
  written.
\<close>

theorem panic_call_outcome:
  assumes "ready l"
  shows "snd (Logger_Panic lib env l args) = Panics (Sprint lib args)
       \<and> snd (Logger_Panicf lib env l format args) = Panics (Sprintf lib format args)
       \<and> sink (fst (Logger_Panic lib env l args))
           = (if level (opt l) \<le> PanicLevel
              then sink l @ [rendered lib env l PanicLevel FmtEmptySeparate args]
              else sink l)
       \<and> sink (fst (Logger_Panicf lib env l format args))
           = (if level (opt l) \<le> PanicLevel
              then sink l @ [rendered lib env l PanicLevel format args]
              else sink l)"
proof -
  obtain l1 where l1: "leveled lib env l PanicLevel FmtEmptySeparate args = (l1, Returns ())"
    using leveled_Returns [OF assms] by blast
  obtain l2 where l2: "leveled lib env l PanicLevel format args = (l2, Returns ())"
    using leveled_Returns [OF assms] by blast
  have p: "Logger_Panic lib env l args
             = (fst (leveled lib env l PanicLevel FmtEmptySeparate args), Panics (Sprint lib args))"
    by (simp add: Logger_Panic_def l1)
  have pf: "Logger_Panicf lib env l format args
             = (fst (leveled lib env l PanicLevel format args), Panics (Sprintf lib format args))"
    by (simp add: Logger_Panicf_def l2)
  show ?thesis
    by (simp add: p pf sink_leveled [OF assms])
qed

text \<open>
  C9 as stated fails: the panic does not depend on the gate. With the minimum level at
  \<open>FatalLevel\<close>, \<^verbatim>\<open>Panic("boom")\<close> writes nothing and panics all the same.
\<close>

theorem panic_without_flush:
  "snd (Logger_Panic exLib exEnv (New [WithLevel FatalLevel]) [StringV ''boom'']) = Panics ''boom''
   \<and> sink (fst (Logger_Panic exLib exEnv (New [WithLevel FatalLevel]) [StringV ''boom''])) = []"
  by code_simp

theorem panic_call_outcome_witness:
  "ready (New [] :: goval Logger)
   \<and> snd (Logger_Panic exLib exEnv (New []) [StringV ''boom'']) = Panics ''boom''
   \<and> sink (fst (Logger_Panic exLib exEnv (New []) [StringV ''boom'']))
       = [''2026-01-02T03:04:05Z Panic run.go:42 boom\<newline>'']"
proof -
  let ?L = "New [] :: goval Logger"
  have lv: "level (opt ?L) \<le> PanicLevel"
    by (simp add: New_def initOptions_def)
  have s0: "sink ?L = []" by code_simp
  have m: "Sprint exLib [StringV ''boom''] = ''boom''" by code_simp
  have r: "rendered exLib exEnv ?L PanicLevel FmtEmptySeparate [StringV ''boom'']
             = ''2026-01-02T03:04:05Z Panic run.go:42 boom\<newline>''"
    by code_simp
  from panic_call_outcome [OF ready_New, where opts1 = "[]" and lib = exLib and env = exEnv
         and args = "[StringV ''boom'']"]
       lv s0 m r ready_New [where opts = "[]" and 'a = goval]
  show ?thesis by simp
qed

section \<open>The raw-bytes adapter\<close>

text \<open>
  C10. On a logger with a writer and a formatter, \<^verbatim>\<open>Write\<close> returns the count \<open>0\<close> and a
  nil error for every slice of bytes, whether the message is stopped at the gate (the
  destination is then unchanged) or written (the destination then has received the
  rendered record).
\<close>

theorem write_adapter_result:
  assumes "ready l"
  shows "snd (Logger_Write lib env l data) = Returns (0, None)
       \<and> sink (fst (Logger_Write lib env l data))
           = (if level (opt l) \<le> stdLevel (opt l)
              then sink l @ [rendered lib env l (stdLevel (opt l)) FmtEmptySeparate [StringV data]]
              else sink l)"
proof -
  obtain l1 where
    l1: "leveled lib env l (stdLevel (opt l)) FmtEmptySeparate [StringV data] = (l1, Returns ())"
    using leveled_Returns [OF assms] by blast
  have w: "Logger_Write lib env l data
             = (fst (leveled lib env l (stdLevel (opt l)) FmtEmptySeparate [StringV data]),
                Returns (0, None))"
    by (simp add: Logger_Write_def l1)
  show ?thesis
    by (simp add: w sink_leveled [OF assms])
qed

theorem write_adapter_result_witness:
  "ready (New [WithLevel InfoLevel] :: goval Logger)
   \<and> Logger_Write exLib exEnv (New [WithLevel InfoLevel]) ''a long line from elsewhere''
       = (New [WithLevel InfoLevel], Returns (0, None))
   \<and> ready (New [] :: goval Logger)
   \<and> snd (Logger_Write exLib exEnv (New []) ''hi'') = Returns (0, None)
   \<and> sink (fst (Logger_Write exLib exEnv (New []) ''hi''))
       = [''2026-01-02T03:04:05Z Trace run.go:42 hi\<newline>'']"
proof -
  let ?L = "New [] :: goval Logger"
  have lv: "level (opt ?L) \<le> stdLevel (opt ?L)"
    by (simp add: New_def initOptions_def)
  have s0: "sink ?L = []" by code_simp
  have r: "rendered exLib exEnv ?L (stdLevel (opt ?L)) FmtEmptySeparate [StringV ''hi'']
             = ''2026-01-02T03:04:05Z Trace run.go:42 hi\<newline>''"
    by code_simp
  have g: "fst (Logger_Write exLib exEnv (New [WithLevel InfoLevel]) ''a long line from elsewhere'')
             = (New [WithLevel InfoLevel] :: goval Logger)"
    by (simp add: Logger_Write_def leveled_def Entry_write_def Logger_entry_def New_def
        initOptions_def WithLevel_def Level_defs)
  from write_adapter_result [OF ready_New, where opts1 = "[]" and lib = exLib and env = exEnv
         and data = "''hi''"]
       write_adapter_result [OF ready_New, where opts1 = "[WithLevel InfoLevel]" and lib = exLib
         and env = exEnv and data = "''a long line from elsewhere''"]
       lv s0 r g ready_New [where opts = "[]" and 'a = goval]
       ready_New [where opts = "[WithLevel InfoLevel]" and 'a = goval]
  show ?thesis by (simp add: prod_eq_iff)
qed


section \<open>Where the code departs from the specification\<close>

text \<open>
  What the gate does to the pool, in general: a call stopped at the gate leaves the pool
  without the record it took, and a call that gets through puts one record back.
\<close>

lemma entryPool_leveled_below:
  "lvl < level (opt l) \<Longrightarrow>
     entryPool (fst (leveled lib env l lvl format args)) = tl (entryPool l)"
  by (simp add: leveled_below entryPool_Logger_entry)

lemma entryPool_leveled_pass:
  assumes "ready l" and "level (opt l) \<le> lvl"
  shows "length (entryPool (fst (leveled lib env l lvl format args)))
           = Suc (length (tl (entryPool l)))"
  using leveled_pass [OF assms, of lib env format args]
  by (auto simp: Entry_release_def entryPool_Logger_entry)

text \<open>
  C1 on the code. A logger with minimum level \<open>InfoLevel\<close> that has handled one \<^verbatim>\<open>Info\<close>
  call holds one record in its pool. A \<^verbatim>\<open>Debug\<close> call on it returns at the gate and
  writes nothing, as the claim says, but the record it acquired is not released: the
  pool is empty afterwards.
\<close>

theorem gated_call_drops_the_record:
  "length (entryPool exInfoLogger) = 1
   \<and> length (entryPool (fst (Logger_Debug exLib exEnv exInfoLogger [StringV ''x'']))) = 0
   \<and> sink (fst (Logger_Debug exLib exEnv exInfoLogger [StringV ''x''])) = sink exInfoLogger
   \<and> snd (Logger_Debug exLib exEnv exInfoLogger [StringV ''x'']) = Returns ()"
  by code_simp

text \<open>
  The caller is looked up when \<^verbatim>\<open>enableCaller\<close> is false, and only then.
\<close>

lemma File_Entry_populate:
  "File (Entry_populate env l e lvl format args)
     = (if enableCaller (opt l) then File e
        else (case runtime_Caller env of None \<Rightarrow> ''unknown'' | Some c \<Rightarrow> fst c))"
  by (simp add: Entry_populate_def split: option.splits prod.splits)

text \<open>
  C2 on the code. With \<^verbatim>\<open>WithEnableCaller(true)\<close> the line carries no file and line; with
  \<^verbatim>\<open>WithEnableCaller(false)\<close> it carries them, and \<^verbatim>\<open>unknown\<close> when the lookup fails.
\<close>

theorem caller_captured_when_flag_is_off:
  "sink (fst (Logger_Info exLib exEnv (New [WithEnableCaller True]) [StringV ''x'']))
     = [''2026-01-02T03:04:05Z Info x\<newline>'']
   \<and> sink (fst (Logger_Info exLib exEnv (New [WithEnableCaller False]) [StringV ''x'']))
     = [''2026-01-02T03:04:05Z Info run.go:42 x\<newline>'']
   \<and> sink (fst (Logger_Info exLib (exEnv\<lparr>runtime_Caller := None\<rparr>)
                  (New [WithEnableCaller False]) [StringV ''x'']))
     = [''2026-01-02T03:04:05Z Info unknown:0 x\<newline>'']"
  by code_simp

text \<open>
  C3 on the code. After a call rendered by the JSON formatter, the record in the pool has
  an empty buffer but its mapping still holds the keys of that call. They show in a
  later call: with caller capture switched off for it (its own file name is empty), the
  object written for the second message carries the file and function of the first.
\<close>

theorem release_keeps_the_mapping:
  "map (\<lambda>e. (Buf e, Map e ''file'', Map e ''func'', Map e ''message'')) (entryPool exJSONLogger)
     = [([], Some (StringV ''/home/user/app/sub/run.go:42''), Some (StringV ''sub.Run''),
         Some (StringV ''first''))]
   \<and> File (Entry_populate exEnv (Logger_SetOptions exJSONLogger [WithEnableCaller True])
             (fst (Logger_entry exJSONLogger)) InfoLevel FmtEmptySeparate [StringV ''second'']) = []
   \<and> sink (fst (Logger_Info exLib exEnv
                  (Logger_SetOptions exJSONLogger [WithEnableCaller True]) [StringV ''second'']))
        ! 1
     = fst (exEncodeMap
         [''file'' \<mapsto> StringV ''/home/user/app/sub/run.go:42'', ''func'' \<mapsto> StringV ''sub.Run'',
          ''level'' \<mapsto> StringV ''Info'', ''message'' \<mapsto> StringV ''second'',
          ''time'' \<mapsto> StringV ''2026-01-02T03:04:05Z''])"
  by code_simp

end
